theory Spec2Isabelle
  imports Main
begin

section \<open>The databases plugin: data model\<close>

text \<open>
  A shallow embedding of \<^verbatim>\<open>desktop/plugins/public/databases/index.tsx\<close>.
  JavaScript numbers that the plugin uses as ids, offsets and counts are integers
  (\<^typ>\<open>int\<close>); strings are \<^typ>\<open>string\<close>; an array is a list; a field of
  type \<^verbatim>\<open>T | null\<close> is a \<^typ>\<open>'a option\<close>. A property read on
  \<^verbatim>\<open>undefined\<close> raises a TypeError in JavaScript: every such read is a
  branch of the model that returns the error.
\<close>

datatype js_error = TypeError

text \<open>
  Modelled from the spec: the type \<^verbatim>\<open>Value\<close> is imported from the package
  \<^verbatim>\<open>flipper\<close> and is not among the sources. The spec describes it as a
  discriminated union \<^verbatim>\<open>{type, value}\<close> with
  \<^verbatim>\<open>type\<close> one of null, boolean, number, bigint, string, bytes, unknown.
\<close>

datatype val =
    VNull
  | VBoolean bool
  | VNumber int
  | VBigint int
  | VString string
  | VBytes "nat list"
  | VUnknown

text \<open>\<^verbatim>\<open>xs[i]\<close> on an array: \<^verbatim>\<open>undefined\<close> (here \<open>None\<close>) out of range.\<close>

definition js_index :: "'a list \<Rightarrow> int \<Rightarrow> 'a option" where
  "js_index xs i = (if 0 \<le> i \<and> i < int (length xs) then Some (xs ! nat i) else None)"

text \<open>\<^verbatim>\<open>xs.indexOf(x)\<close>: the first position of \<open>x\<close>, or \<open>-1\<close>.\<close>

fun indexOf :: "'a list \<Rightarrow> 'a \<Rightarrow> int" where
  "indexOf [] x = -1"
| "indexOf (y # ys) x = (if y = x then 0 else (let i = indexOf ys x in if i < 0 then -1 else i + 1))"

text \<open>
  \<^verbatim>\<open>xs.splice(i, 1)\<close> for \<open>0 \<le> i\<close>: removes the element at position \<open>i\<close>
  (nothing when \<open>i\<close> is past the end).
\<close>

fun splice1 :: "nat \<Rightarrow> 'a list \<Rightarrow> 'a list" where
  "splice1 i [] = []"
| "splice1 0 (x # xs) = xs"
| "splice1 (Suc i) (x # xs) = x # splice1 i xs"

datatype view_mode = Data | StructureMode | SQL | TableInfo | QueryHistory

datatype direction = Up | Down

text \<open>\<^verbatim>\<open>TableRowSortOrder\<close> (from \<^verbatim>\<open>flipper\<close>): a sort key and a direction.\<close>

record TableRowSortOrder =
  key :: string
  direction :: direction

text \<open>
  \<^verbatim>\<open>Page\<close> and \<^verbatim>\<open>Structure\<close> share their first four fields; the
  record \<open>TableRef\<close> holds them so that both keep the source's field names.
\<close>

record TableRef =
  databaseId :: int
  table :: string
  columns :: "string list"
  rows :: "val list list"

record Page = TableRef +
  start :: int
  count :: int
  total :: int
  highlightedRows :: "int list"

record Structure = TableRef +
  indexesColumns :: "string list"
  indexesValues :: "val list list"

text \<open>
  \<^verbatim>\<open>QueriedTable\<close>, \<^verbatim>\<open>QueryResult\<close>, \<^verbatim>\<open>DatabaseEntry\<close> and
  \<^verbatim>\<open>Query\<close>; their fields carry a prefix where the source's name is already
  taken (\<open>columns\<close>, \<open>table\<close>, \<open>count\<close>, \<open>id\<close>, \<open>value\<close>).
\<close>

record QueriedTable =
  qt_columns :: "string list"
  qt_rows :: "val list list"
  qt_highlightedRows :: "int list"

record QueryResult =
  qr_table :: "QueriedTable option"
  qr_id :: "int option"
  qr_count :: "int option"

record DatabaseEntry =
  db_id :: int
  name :: string
  tables :: "string list"

text \<open>
  A \<^verbatim>\<open>Query\<close> is an object that \<^verbatim>\<open>execute\<close> mutates in place
  (\<^verbatim>\<open>newQuery.time = ...\<close>) and then shares between the buffer and the history.
  The field \<open>oid\<close> is the object's identity: two records with the same \<open>oid\<close>
  stand for one JavaScript object.
\<close>

record Query =
  oid :: nat
  q_value :: string
  q_time :: string

text \<open>
  \<^verbatim>\<open>selectedDatabaseTable\<close> is declared \<^verbatim>\<open>string | null\<close>, but
  \<^verbatim>\<open>updateDatabases\<close> can store \<^verbatim>\<open>undefined\<close> in it
  (\<^verbatim>\<open>tables[0]\<close> of an empty array), and \<^verbatim>\<open>===\<close> tells the two apart.
\<close>

datatype table_sel = Null | Undefined | Table string

text \<open>JavaScript truthiness of a table selection: a non-empty string.\<close>

fun truthy_table :: "table_sel \<Rightarrow> bool" where
  "truthy_table (Table t) = (t \<noteq> [])"
| "truthy_table _ = False"

record DatabasesPluginState =
  selectedDatabase :: int
  selectedDatabaseTable :: table_sel
  pageRowNumber :: int
  databases :: "DatabaseEntry list"
  outdatedDatabaseList :: bool
  viewMode :: view_mode
  error :: "string option"
  currentPage :: "Page option"
  currentStructure :: "Structure option"
  currentSort :: "TableRowSortOrder option"
  query :: "Query option"
  queryResult :: "QueryResult option"
  favorites :: "string list"
  executionTime :: int
  tableInfo :: string
  queryHistory :: "Query list"

definition PAGE_SIZE :: int where
  "PAGE_SIZE = 50"

text \<open>The state that \<^verbatim>\<open>createState\<close> is given in \<^verbatim>\<open>plugin\<close>.\<close>

definition initialState :: DatabasesPluginState where
  "initialState = \<lparr>
     selectedDatabase = 0,
     selectedDatabaseTable = Null,
     pageRowNumber = 0,
     databases = [],
     outdatedDatabaseList = True,
     viewMode = Data,
     error = None,
     currentPage = None,
     currentStructure = None,
     currentSort = None,
     query = None,
     queryResult = None,
     favorites = [],
     executionTime = 0,
     tableInfo = [],
     queryHistory = [] \<rparr>"

section \<open>State transitions\<close>

text \<open>
  Each function below computes the state that the source function of the same name hands
  to \<^verbatim>\<open>pluginState.set\<close> (or builds with \<^verbatim>\<open>pluginState.update\<close>) from
  the state it read with \<^verbatim>\<open>pluginState.get()\<close>. A function that can raise
  returns \<open>Inl\<close> of the error; the store is then left as it was.
\<close>

text \<open>
  \<^verbatim>\<open>updateDatabases\<close>: \<^verbatim>\<open>Array.prototype.sort\<close> with the comparator
  \<^verbatim>\<open>db1.id - db2.id\<close> is a stable sort by id, as \<^const>\<open>sort_key\<close> is.
\<close>

definition updateDatabases ::
  "DatabaseEntry list \<Rightarrow> DatabasesPluginState \<Rightarrow> js_error + DatabasesPluginState" where
  "updateDatabases updates state =
     (let dbs = sort_key db_id updates;
          selected =
            (if selectedDatabase state \<noteq> 0 then selectedDatabase state
             else (case dbs of [] \<Rightarrow> 0 | d # _ \<Rightarrow> db_id d))
      in case js_index dbs (selected - 1) of
           None \<Rightarrow> Inl TypeError
         | Some entry \<Rightarrow>
             (let selectedTable =
                    (if truthy_table (selectedDatabaseTable state)
                        \<and> selectedDatabaseTable state \<in> Table ` set (tables entry)
                     then selectedDatabaseTable state
                     else (case tables entry of [] \<Rightarrow> Undefined | t # _ \<Rightarrow> Table t));
                  sameTableSelected =
                    (selected = selectedDatabase state
                       \<and> selectedTable = selectedDatabaseTable state)
              in Inr (state\<lparr>
                   databases := dbs,
                   outdatedDatabaseList := False,
                   selectedDatabase := selected,
                   selectedDatabaseTable := selectedTable,
                   pageRowNumber := 0,
                   currentPage := (if sameTableSelected then currentPage state else None),
                   currentStructure := None,
                   currentSort := (if sameTableSelected then currentSort state else None)\<rparr>)))"

text \<open>
  \<^verbatim>\<open>updateSelectedDatabase\<close>: \<^verbatim>\<open>tables[0] || null\<close> is
  \<^verbatim>\<open>null\<close> for an empty table list and for an empty first name.
\<close>

definition updateSelectedDatabase ::
  "int \<Rightarrow> DatabasesPluginState \<Rightarrow> js_error + DatabasesPluginState" where
  "updateSelectedDatabase database state =
     (case js_index (databases state) (database - 1) of
        None \<Rightarrow> Inl TypeError
      | Some entry \<Rightarrow>
          Inr (state\<lparr>
            selectedDatabase := database,
            selectedDatabaseTable :=
              (case tables entry of [] \<Rightarrow> Null | t # _ \<Rightarrow> if t = [] then Null else Table t),
            pageRowNumber := 0,
            currentPage := None,
            currentStructure := None,
            currentSort := None\<rparr>))"

definition updateSelectedDatabaseTable ::
  "string \<Rightarrow> DatabasesPluginState \<Rightarrow> DatabasesPluginState" where
  "updateSelectedDatabaseTable t state =
     state\<lparr>
       selectedDatabaseTable := Table t,
       pageRowNumber := 0,
       currentPage := None,
       currentStructure := None,
       currentSort := None\<rparr>"

definition updateViewMode :: "view_mode \<Rightarrow> DatabasesPluginState \<Rightarrow> DatabasesPluginState" where
  "updateViewMode m state = state\<lparr>viewMode := m, error := None\<rparr>"

definition updatePage :: "Page \<Rightarrow> DatabasesPluginState \<Rightarrow> DatabasesPluginState" where
  "updatePage event state = state\<lparr>currentPage := Some event\<rparr>"

definition updateStructure :: "Structure \<Rightarrow> DatabasesPluginState \<Rightarrow> DatabasesPluginState" where
  "updateStructure event state =
     state\<lparr>currentStructure := Some \<lparr>
       databaseId = databaseId event,
       table = table event,
       columns = columns event,
       rows = rows event,
       indexesColumns = indexesColumns event,
       indexesValues = indexesValues event\<rparr>\<rparr>"

definition displaySelect ::
  "string list \<Rightarrow> val list list \<Rightarrow> DatabasesPluginState \<Rightarrow> DatabasesPluginState" where
  "displaySelect cols vals state =
     state\<lparr>queryResult := Some \<lparr>
       qr_table = Some \<lparr>qt_columns = cols, qt_rows = vals, qt_highlightedRows = []\<rparr>,
       qr_id = None,
       qr_count = None\<rparr>\<rparr>"

definition displayInsert :: "int \<Rightarrow> DatabasesPluginState \<Rightarrow> DatabasesPluginState" where
  "displayInsert i state =
     state\<lparr>queryResult := Some \<lparr>qr_table = None, qr_id = Some i, qr_count = None\<rparr>\<rparr>"

definition displayUpdateDelete :: "int \<Rightarrow> DatabasesPluginState \<Rightarrow> DatabasesPluginState" where
  "displayUpdateDelete c state =
     state\<lparr>queryResult := Some \<lparr>qr_table = None, qr_id = None, qr_count = Some c\<rparr>\<rparr>"

definition updateTableInfo :: "string \<Rightarrow> DatabasesPluginState \<Rightarrow> DatabasesPluginState" where
  "updateTableInfo info state = state\<lparr>tableInfo := info\<rparr>"

definition nextPage :: "DatabasesPluginState \<Rightarrow> DatabasesPluginState" where
  "nextPage state = state\<lparr>pageRowNumber := pageRowNumber state + PAGE_SIZE, currentPage := None\<rparr>"

definition previousPage :: "DatabasesPluginState \<Rightarrow> DatabasesPluginState" where
  "previousPage state =
     state\<lparr>pageRowNumber := max (pageRowNumber state - PAGE_SIZE) 0, currentPage := None\<rparr>"

text \<open>
  \<^verbatim>\<open>goToRow\<close> returns before any update when no page is loaded; \<open>None\<close> is
  that early return.
\<close>

definition goToRow :: "int \<Rightarrow> DatabasesPluginState \<Rightarrow> DatabasesPluginState option" where
  "goToRow row state =
     (case currentPage state of
        None \<Rightarrow> None
      | Some page \<Rightarrow>
          (let destinationRow =
                 (if row < 0 then 0
                  else if row \<ge> total page - PAGE_SIZE then max (total page - PAGE_SIZE) 0
                  else row)
           in Some (state\<lparr>pageRowNumber := destinationRow, currentPage := None\<rparr>)))"

definition refresh :: "DatabasesPluginState \<Rightarrow> DatabasesPluginState" where
  "refresh state = state\<lparr>outdatedDatabaseList := True, currentPage := None\<rparr>"

definition sortByChanged :: "TableRowSortOrder \<Rightarrow> DatabasesPluginState \<Rightarrow> DatabasesPluginState" where
  "sortByChanged sortOrder state =
     state\<lparr>currentSort := Some sortOrder, pageRowNumber := 0, currentPage := None\<rparr>"

text \<open>
  \<^verbatim>\<open>updateQuery\<close> builds a new \<^verbatim>\<open>Query\<close> object; \<open>ob\<close> is the
  identity of that object and \<open>now\<close> the formatted clock
  (\<^verbatim>\<open>dateFormat(new Date(), 'hh:MM:ss')\<close>).
\<close>

definition updateQuery :: "nat \<Rightarrow> string \<Rightarrow> string \<Rightarrow> DatabasesPluginState \<Rightarrow> DatabasesPluginState" where
  "updateQuery ob v now state = state\<lparr>query := Some \<lparr>oid = ob, q_value = v, q_time = now\<rparr>\<rparr>"

text \<open>
  The synchronous tail of \<^verbatim>\<open>execute\<close>. The assignment
  \<^verbatim>\<open>newQuery.time = ...\<close> writes to the object that the state's \<open>query\<close> field
  holds. When that object is read-only (\<open>frozen\<close>, see the store below) the assignment
  raises a TypeError and nothing is appended. Otherwise the buffer and every history entry
  that is this same object see the new time, and the object is appended to the history.
  With no buffer the history is stored back as it is.
\<close>

definition stamp :: "nat \<Rightarrow> string \<Rightarrow> Query \<Rightarrow> Query" where
  "stamp ob now q = (if oid q = ob then q\<lparr>q_time := now\<rparr> else q)"

definition execute_history ::
  "bool \<Rightarrow> string \<Rightarrow> DatabasesPluginState \<Rightarrow> js_error + DatabasesPluginState" where
  "execute_history frozen now state =
     (case query state of
        None \<Rightarrow> Inr (state\<lparr>queryHistory := queryHistory state\<rparr>)
      | Some newQuery \<Rightarrow>
          if frozen then Inl TypeError
          else Inr (state\<lparr>
            query := Some (newQuery\<lparr>q_time := now\<rparr>),
            queryHistory :=
              map (stamp (oid newQuery) now) (queryHistory state) @ [newQuery\<lparr>q_time := now\<rparr>]\<rparr>))"

text \<open>
  Modelled from the spec: the response types of the remote protocol
  (\<^verbatim>\<open>ClientProtocol\<close>) are not among the sources. The spec lists the response
  of \<^verbatim>\<open>execute\<close> as one of \<^verbatim>\<open>{type: select, columns, values}\<close>,
  \<^verbatim>\<open>{type: insert, insertedId}\<close> and
  \<^verbatim>\<open>{type: update_delete, affectedCount}\<close>.
\<close>

datatype execute_response =
    SelectResponse "string list" "val list list"
  | InsertResponse int
  | UpdateDeleteResponse int

text \<open>
  The two continuations of \<^verbatim>\<open>execute\<close>: \<open>elapsed\<close> is
  \<^verbatim>\<open>Date.now() - timeBefore\<close>.
\<close>

definition execute_then_clear :: "int \<Rightarrow> DatabasesPluginState \<Rightarrow> DatabasesPluginState" where
  "execute_then_clear elapsed state = state\<lparr>error := None, executionTime := elapsed\<rparr>"

definition set_error :: "string \<Rightarrow> DatabasesPluginState \<Rightarrow> DatabasesPluginState" where
  "set_error e state = state\<lparr>error := Some e\<rparr>"

section \<open>The store, the subscription and the outstanding requests\<close>

text \<open>
  A call of \<^verbatim>\<open>client.send\<close> is recorded as an outstanding request, together
  with what its continuation captured (the database id and table of the state that
  triggered it; for \<^verbatim>\<open>execute\<close> the time before the call).
\<close>

datatype request =
    GetTableData int int "string option" bool string int
  | GetTableStructure int string
  | GetTableInfo int string
  | DatabaseList
  | ExecuteQuery int string int

datatype response =
    TableDataResponse "string list" "val list list" int int int
  | TableStructureResponse "string list" "val list list" "string list" "val list list"
  | TableInfoResponse string
  | DatabaseListResponse "DatabaseEntry list"
  | ExecuteResponse execute_response

text \<open>
  The world around the plugin: the store's state, the outstanding requests in the order
  they were sent, the item \<^verbatim>\<open>plugin-database-favorites-sql-queries\<close> of
  \<^verbatim>\<open>localStorage\<close> (\<open>None\<close> when it was never written), the next
  unused object identity, and whether the two objects that the source writes in place
  are read-only: the object in the state's \<open>query\<close> field and the array in its
  \<open>favorites\<close> field.
\<close>

record world =
  store :: DatabasesPluginState
  pending :: "request list"
  storage :: "string list option"
  next_oid :: nat
  queryFrozen :: bool
  favoritesFrozen :: bool

text \<open>
  The table name of a selection; the subscription reads it only when the selection is a
  non-empty string.
\<close>

definition the_table :: "table_sel \<Rightarrow> string" where
  "the_table t = (case t of Table s \<Rightarrow> s | _ \<Rightarrow> [])"

text \<open>
  The function given to \<^verbatim>\<open>pluginState.subscribe\<close>: the requests it sends for
  the new state and the previous one, in the order of the source.
\<close>

definition subscriber :: "DatabasesPluginState \<Rightarrow> DatabasesPluginState \<Rightarrow> request list" where
  "subscriber newState previousState =
     (let dbId = selectedDatabase newState;
          tbl = selectedDatabaseTable newState;
          selected = (dbId \<noteq> 0 \<and> truthy_table tbl)
      in (if viewMode newState = Data \<and> currentPage newState = None \<and> selected
          then [GetTableData PAGE_SIZE dbId
                  (map_option key (currentSort newState))
                  ((case currentSort newState of None \<Rightarrow> Up | Some so \<Rightarrow> direction so) = Down)
                  (the_table tbl)
                  (pageRowNumber newState)]
          else [])
       @ (if currentStructure newState = None \<and> selected
          then [GetTableStructure dbId (the_table tbl)] else [])
       @ (if viewMode newState = TableInfo \<and> currentStructure newState = None \<and> selected
          then [GetTableInfo dbId (the_table tbl)] else [])
       @ (if \<not> outdatedDatabaseList previousState \<and> outdatedDatabaseList newState
          then [DatabaseList] else []))"

text \<open>
  Modelled from the spec: the store (\<^verbatim>\<open>createState\<close> of
  \<^verbatim>\<open>flipper-plugin\<close>) is not among the sources. The spec gives it
  \<^verbatim>\<open>set(newState)\<close>, an atomic replace, and a notification that delivers
  \<^verbatim>\<open>(newState, previousState)\<close> to the subscriber synchronously after each set;
  \<^verbatim>\<open>update\<close> is a set of the state the recipe produces. The spec has the
  state never mutated outside the store's update functions: a state that
  \<^verbatim>\<open>update\<close> has produced is read-only, together with every object and array
  it holds, and an assignment to a read-only object raises a TypeError. An object that a
  transition builds and stores with \<^verbatim>\<open>set\<close> stays writable until the next
  \<^verbatim>\<open>update\<close>.

  \<open>set_store\<close> is \<^verbatim>\<open>pluginState.set(newState)\<close>, \<open>assign_store\<close>
  is the pattern \<^verbatim>\<open>pluginState.set({...pluginState.get(), ...})\<close>, and
  \<open>update_store\<close> is \<^verbatim>\<open>pluginState.update(recipe)\<close>; each transition
  below uses the one that its source uses.
\<close>

definition set_store :: "DatabasesPluginState \<Rightarrow> world \<Rightarrow> world" where
  "set_store newState w =
     w\<lparr>store := newState, pending := pending w @ subscriber newState (store w)\<rparr>"

definition assign_store :: "(DatabasesPluginState \<Rightarrow> DatabasesPluginState) \<Rightarrow> world \<Rightarrow> world" where
  "assign_store f w = set_store (f (store w)) w"

definition freeze :: "world \<Rightarrow> world" where
  "freeze w = w\<lparr>queryFrozen := True, favoritesFrozen := True\<rparr>"

definition update_store :: "(DatabasesPluginState \<Rightarrow> DatabasesPluginState) \<Rightarrow> world \<Rightarrow> world" where
  "update_store recipe w = freeze (set_store (recipe (store w)) w)"

text \<open>
  A transition that raises before its \<^verbatim>\<open>pluginState.set\<close> leaves the world as
  it was.
\<close>

definition try_store :: "(DatabasesPluginState \<Rightarrow> js_error + DatabasesPluginState) \<Rightarrow> world \<Rightarrow> world" where
  "try_store f w = (case f (store w) of Inl _ \<Rightarrow> w | Inr newState \<Rightarrow> set_store newState w)"

text \<open>
  \<^verbatim>\<open>execute\<close>: sends the request, then appends to the history and stores it.
  When the write to the buffer raises, the exception leaves \<^verbatim>\<open>execute\<close>:
  the request has been sent and nothing else has happened.
\<close>

definition execute :: "string \<Rightarrow> string \<Rightarrow> int \<Rightarrow> world \<Rightarrow> world" where
  "execute q now timeBefore w =
     (let sent = w\<lparr>pending := pending w @ [ExecuteQuery (selectedDatabase (store w)) q timeBefore]\<rparr>
      in case execute_history (queryFrozen w) now (store w) of
           Inl _ \<Rightarrow> sent
         | Inr newState \<Rightarrow> update_store (\<lambda>_. newState) sent)"

text \<open>
  The display of a successful \<^verbatim>\<open>execute\<close>: \<^verbatim>\<open>displaySelect\<close> and
  \<^verbatim>\<open>displayUpdateDelete\<close> use \<^verbatim>\<open>update\<close>,
  \<^verbatim>\<open>displayInsert\<close> uses \<^verbatim>\<open>set\<close>.
\<close>

fun execute_then_display :: "execute_response \<Rightarrow> world \<Rightarrow> world" where
  "execute_then_display (SelectResponse cols vals) w = update_store (displaySelect cols vals) w"
| "execute_then_display (InsertResponse i) w = assign_store (displayInsert i) w"
| "execute_then_display (UpdateDeleteResponse c) w = update_store (displayUpdateDelete c) w"

text \<open>
  \<^verbatim>\<open>updateFavorites\<close>. The argument is \<^verbatim>\<open>undefined\<close>, the very array
  that the state holds (\<^verbatim>\<open>onFavoritesClicked\<close> passes
  \<^verbatim>\<open>instance.state.get().favorites\<close>), or another array. In the first two cases
  \<^verbatim>\<open>newFavorites\<close> is the state's own array and \<^verbatim>\<open>splice\<close> changes
  it in place. The function writes \<^verbatim>\<open>localStorage\<close> and returns a state; it
  does not call \<^verbatim>\<open>pluginState.set\<close>. The result is the returned state and
  the world after the call. \<open>updateFavorites_raises\<close> says when the call raises
  instead: when \<^verbatim>\<open>splice\<close> is applied to the state's own array and that array
  is read-only. The callers below leave the world as it was in that case.
\<close>

datatype favorites_arg = FavoritesUndefined | FavoritesOfState | FavoritesArray "string list"

definition updateFavorites_raises :: "favorites_arg \<Rightarrow> world \<Rightarrow> bool" where
  "updateFavorites_raises arg w =
     (favoritesFrozen w \<and>
      (case arg of FavoritesArray _ \<Rightarrow> False | _ \<Rightarrow> True) \<and>
      (case query (store w) of None \<Rightarrow> False | Some q \<Rightarrow> q_value q \<in> set (favorites (store w))))"

definition updateFavorites :: "favorites_arg \<Rightarrow> world \<Rightarrow> DatabasesPluginState \<times> world" where
  "updateFavorites arg w =
     (let state = store w;
          aliased = (case arg of FavoritesArray _ \<Rightarrow> False | _ \<Rightarrow> True);
          given = (case arg of FavoritesArray xs \<Rightarrow> xs | _ \<Rightarrow> favorites state);
          removes = (case query state of None \<Rightarrow> False | Some q \<Rightarrow> q_value q \<in> set given);
          newFavorites =
            (case query state of
               None \<Rightarrow> given
             | Some q \<Rightarrow>
                 if q_value q \<in> set given
                 then splice1 (nat (indexOf given (q_value q))) given
                 else favorites state @ [q_value q]);
          state' = (if aliased \<and> removes then state\<lparr>favorites := newFavorites\<rparr> else state)
      in (state'\<lparr>favorites := newFavorites\<rparr>,
          w\<lparr>store := state', storage := Some newFavorites\<rparr>))"

definition onFavoritesClicked :: "world \<Rightarrow> world" where
  "onFavoritesClicked w =
     (if updateFavorites_raises FavoritesOfState w then w
      else snd (updateFavorites FavoritesOfState w))"

text \<open>
  \<^verbatim>\<open>client.onConnect\<close>: requests the database list and calls
  \<^verbatim>\<open>updateFavorites\<close> with the stored list
  (\<^verbatim>\<open>JSON.parse(localStorage.getItem(...) || '[]')\<close>), a new array, so
  that this call does not raise.
\<close>

definition onConnect :: "world \<Rightarrow> world" where
  "onConnect w =
     snd (updateFavorites
            (FavoritesArray (case storage w of None \<Rightarrow> [] | Some xs \<Rightarrow> xs))
            (w\<lparr>pending := pending w @ [DatabaseList]\<rparr>))"

text \<open>
  A response arrives: the continuation of the request runs. The page and the structure
  are built from the response and from the database id and table that the request
  captured. \<open>now\<close> is \<^verbatim>\<open>Date.now()\<close> at arrival. A response of another
  method's type does not occur.
\<close>

fun resolve :: "request \<Rightarrow> response \<Rightarrow> int \<Rightarrow> world \<Rightarrow> world" where
  "resolve (GetTableData cnt dbId sortKey reversed tbl st) (TableDataResponse cols vals s c t) now w =
     update_store (updatePage \<lparr>databaseId = dbId, table = tbl, columns = cols, rows = vals,
       start = s, count = c, total = t, highlightedRows = []\<rparr>) w"
| "resolve (GetTableStructure dbId tbl) (TableStructureResponse sc sv ic iv) now w =
     update_store (updateStructure \<lparr>databaseId = dbId, table = tbl, columns = sc, rows = sv,
       indexesColumns = ic, indexesValues = iv\<rparr>) w"
| "resolve (GetTableInfo dbId tbl) (TableInfoResponse d) now w =
     update_store (updateTableInfo d) w"
| "resolve DatabaseList (DatabaseListResponse dbs) now w =
     try_store (updateDatabases dbs) w"
| "resolve (ExecuteQuery dbId q timeBefore) (ExecuteResponse r) now w =
     execute_then_display r (update_store (execute_then_clear (now - timeBefore)) w)"
| "resolve _ _ now w = w"

text \<open>
  A request fails: every request but \<^verbatim>\<open>databaseList\<close> has a
  \<^verbatim>\<open>catch\<close> that stores the error.
\<close>

fun reject :: "request \<Rightarrow> string \<Rightarrow> world \<Rightarrow> world" where
  "reject DatabaseList e w = w"
| "reject _ e w = update_store (set_error e) w"

section \<open>Events\<close>

text \<open>
  What can happen to the plugin: a call of one of the functions that \<^verbatim>\<open>plugin\<close>
  returns, one of the direct writes of \<^verbatim>\<open>Component\<close> to the store (clearing
  the error, highlighting rows; choosing a favorite as the query is the same write as
  \<^verbatim>\<open>updateQuery\<close>), the arrival of a response for the \<open>n\<close>-th
  outstanding request, or its failure. \<^verbatim>\<open>onRowEdited\<close> acts on the store
  through \<^verbatim>\<open>execute\<close> and \<^verbatim>\<open>updatePage\<close>. Clock readings
  are arguments of the events that read the clock.
\<close>

datatype event =
    Connect
  | CallUpdateDatabases "DatabaseEntry list"
  | CallUpdateSelectedDatabase int
  | CallUpdateSelectedDatabaseTable string
  | CallUpdateViewMode view_mode
  | CallUpdatePage Page
  | CallUpdateStructure Structure
  | CallDisplaySelect "string list" "val list list"
  | CallDisplayInsert int
  | CallDisplayUpdateDelete int
  | CallUpdateTableInfo string
  | CallNextPage
  | CallPreviousPage
  | CallExecute string string int
  | CallGoToRow int
  | CallRefresh
  | CallUpdateFavorites favorites_arg
  | CallSortByChanged TableRowSortOrder
  | CallUpdateQuery string string
  | ClearError
  | RowHighlighted "int list"
  | QueryRowHighlighted "string list" "val list list" "int list"
  | Resolve nat response int
  | Reject nat string

definition highlight :: "int list \<Rightarrow> DatabasesPluginState \<Rightarrow> DatabasesPluginState" where
  "highlight hs state =
     (case currentPage state of
        None \<Rightarrow> state
      | Some page \<Rightarrow> state\<lparr>currentPage := Some (page\<lparr>highlightedRows := hs\<rparr>)\<rparr>)"

definition highlight_query ::
  "string list \<Rightarrow> val list list \<Rightarrow> int list \<Rightarrow> DatabasesPluginState \<Rightarrow> DatabasesPluginState" where
  "highlight_query cols vals hs state =
     state\<lparr>queryResult := Some \<lparr>
       qr_table = Some \<lparr>qt_columns = cols, qt_rows = vals, qt_highlightedRows = hs\<rparr>,
       qr_id = None,
       qr_count = None\<rparr>\<rparr>"

definition clear_error :: "DatabasesPluginState \<Rightarrow> DatabasesPluginState" where
  "clear_error state = state\<lparr>error := None\<rparr>"

fun step :: "event \<Rightarrow> world \<Rightarrow> world" where
  "step Connect w = onConnect w"
| "step (CallUpdateDatabases dbs) w = try_store (updateDatabases dbs) w"
| "step (CallUpdateSelectedDatabase d) w = try_store (updateSelectedDatabase d) w"
| "step (CallUpdateSelectedDatabaseTable t) w = assign_store (updateSelectedDatabaseTable t) w"
| "step (CallUpdateViewMode m) w = update_store (updateViewMode m) w"
| "step (CallUpdatePage p) w = update_store (updatePage p) w"
| "step (CallUpdateStructure s) w = update_store (updateStructure s) w"
| "step (CallDisplaySelect cols vals) w = update_store (displaySelect cols vals) w"
| "step (CallDisplayInsert i) w = assign_store (displayInsert i) w"
| "step (CallDisplayUpdateDelete c) w = update_store (displayUpdateDelete c) w"
| "step (CallUpdateTableInfo d) w = update_store (updateTableInfo d) w"
| "step CallNextPage w = update_store nextPage w"
| "step CallPreviousPage w = update_store previousPage w"
| "step (CallExecute q now timeBefore) w = execute q now timeBefore w"
| "step (CallGoToRow r) w =
     (case goToRow r (store w) of None \<Rightarrow> w | Some newState \<Rightarrow> update_store (\<lambda>_. newState) w)"
| "step CallRefresh w = update_store refresh w"
| "step (CallUpdateFavorites arg) w =
     (if updateFavorites_raises arg w then w else snd (updateFavorites arg w))"
| "step (CallSortByChanged so) w = assign_store (sortByChanged so) w"
| "step (CallUpdateQuery v now) w =
     assign_store (updateQuery (next_oid w) v now)
       (w\<lparr>next_oid := Suc (next_oid w), queryFrozen := False\<rparr>)"
| "step ClearError w = update_store clear_error w"
| "step (RowHighlighted hs) w = update_store (highlight hs) w"
| "step (QueryRowHighlighted cols vals hs) w = assign_store (highlight_query cols vals hs) w"
| "step (Resolve n r now) w =
     (if n < length (pending w)
      then resolve (pending w ! n) r now (w\<lparr>pending := splice1 n (pending w)\<rparr>)
      else w)"
| "step (Reject n e) w =
     (if n < length (pending w)
      then reject (pending w ! n) e (w\<lparr>pending := splice1 n (pending w)\<rparr>)
      else w)"

fun run :: "event list \<Rightarrow> world \<Rightarrow> world" where
  "run [] w = w"
| "run (e # es) w = run es (step e w)"

definition initialWorld :: world where
  "initialWorld = \<lparr>store = initialState, pending = [], storage = None, next_oid = 0,
     queryFrozen = False, favoritesFrozen = False\<rparr>"

text \<open>
  The texts that a run appends to the history: at each call of \<^verbatim>\<open>execute\<close>,
  the text of the query buffer at that moment, if there is a buffer and its object is
  still writable.
\<close>

fun submitted :: "event list \<Rightarrow> world \<Rightarrow> string list" where
  "submitted [] w = []"
| "submitted (CallExecute q now timeBefore # es) w =
     (case query (store w) of
        None \<Rightarrow> []
      | Some b \<Rightarrow> if queryFrozen w then [] else [q_value b])
       @ submitted es (step (CallExecute q now timeBefore) w)"
| "submitted (e # es) w = submitted es (step e w)"

definition is_settlement :: "event \<Rightarrow> bool" where
  "is_settlement e = (case e of Resolve _ _ _ \<Rightarrow> True | Reject _ _ \<Rightarrow> True | _ \<Rightarrow> False)"

section \<open>The update-statement builder\<close>

text \<open>
  \<^verbatim>\<open>onRowEdited\<close>. The functions \<^verbatim>\<open>convertStringToValue\<close> and
  \<^verbatim>\<open>constructUpdateQuery\<close> come from \<^verbatim>\<open>UpdateQueryUtil\<close>, which is
  not among the sources: they are parameters. A JavaScript object used as a dictionary is
  an association list in insertion order; \<open>obj_put\<close> is the assignment
  \<^verbatim>\<open>acc[k] = v\<close>. A cell read past the end of a row is \<^verbatim>\<open>undefined\<close>
  (\<open>None\<close>), and reading \<^verbatim>\<open>.type\<close> or \<^verbatim>\<open>.value\<close> of it raises.
\<close>

fun obj_put :: "(string \<times> 'a) list \<Rightarrow> string \<Rightarrow> 'a \<Rightarrow> (string \<times> 'a) list" where
  "obj_put [] k v = [(k, v)]"
| "obj_put ((k', v') # kvs) k v = (if k' = k then (k, v) # kvs else (k', v') # obj_put kvs k v)"

type_synonym column_types = "string \<Rightarrow> (string \<times> bool) option"

datatype row_edit =
    NoEdit
  | LoggedError string
  | Raised js_error
  | Submitted string "(string \<times> val) list"

text \<open>The first \<^verbatim>\<open>reduce\<close>: the names of the primary-key columns.\<close>

fun primaryKeyNames :: "int \<Rightarrow> int \<Rightarrow> val list list \<Rightarrow> string list \<Rightarrow> js_error + string list" where
  "primaryKeyNames primaryKeyIdx nameKeyIdx [] acc = Inr acc"
| "primaryKeyNames primaryKeyIdx nameKeyIdx (row # rest) acc =
     (case js_index row primaryKeyIdx of
        None \<Rightarrow> Inl TypeError
      | Some primary \<Rightarrow>
          if primary = VBoolean True
          then (case js_index row nameKeyIdx of
                  None \<Rightarrow> Inl TypeError
                | Some (VString n) \<Rightarrow> primaryKeyNames primaryKeyIdx nameKeyIdx rest (acc @ [n])
                | Some _ \<Rightarrow> primaryKeyNames primaryKeyIdx nameKeyIdx rest acc)
          else primaryKeyNames primaryKeyIdx nameKeyIdx rest acc)"

text \<open>The second \<^verbatim>\<open>reduce\<close>: the declared type and nullability of each column.\<close>

fun collectTypes ::
  "int \<Rightarrow> int \<Rightarrow> int \<Rightarrow> val list list \<Rightarrow> column_types \<Rightarrow> js_error + column_types" where
  "collectTypes nameKeyIdx typeIdx nullableIdx [] acc = Inr acc"
| "collectTypes nameKeyIdx typeIdx nullableIdx (row # rest) acc =
     (case js_index row nameKeyIdx of
        None \<Rightarrow> Inl TypeError
      | Some nameValue \<Rightarrow>
          (case js_index row typeIdx of
             None \<Rightarrow> Inl TypeError
           | Some typeValue \<Rightarrow>
               (case (if nullableIdx < 0 then Some VNull else js_index row nullableIdx) of
                  None \<Rightarrow> Inl TypeError
                | Some nullableValue \<Rightarrow>
                    collectTypes nameKeyIdx typeIdx nullableIdx rest
                      (case (nameValue, typeValue) of
                         (VString n, VString t) \<Rightarrow> acc(n \<mapsto> (t, nullableValue \<noteq> VBoolean False))
                       | _ \<Rightarrow> acc))))"

definition onRowEdited ::
  "(column_types \<Rightarrow> string \<Rightarrow> string option \<Rightarrow> val) \<Rightarrow>
   (table_sel \<Rightarrow> (string \<times> val option) list \<Rightarrow> (string \<times> val) list \<Rightarrow> string) \<Rightarrow>
   (string \<times> string option) list \<Rightarrow> DatabasesPluginState \<Rightarrow> row_edit" where
  "onRowEdited convertStringToValue constructUpdateQuery change state =
     (let highlightedRowIdx =
            (case currentPage state of
               None \<Rightarrow> -1
             | Some p \<Rightarrow> (case highlightedRows p of [] \<Rightarrow> -1 | h # _ \<Rightarrow> h));
          row =
            (case currentPage state of
               None \<Rightarrow> None
             | Some p \<Rightarrow> if highlightedRowIdx \<ge> 0 then js_index (rows p) highlightedRowIdx else None)
      in if viewMode state \<noteq> Data \<or> selectedDatabaseTable state = Null \<or> change = []
         then NoEdit
         else case (currentStructure state, currentPage state, row) of
           (Some structure, Some page, Some r) \<Rightarrow>
             (let primaryKeyIdx = indexOf (columns structure) ''primary_key'';
                  nameKeyIdx = indexOf (columns structure) ''column_name'';
                  typeIdx = indexOf (columns structure) ''data_type'';
                  nullableIdx = indexOf (columns structure) ''nullable''
              in if primaryKeyIdx < 0 \<and> nameKeyIdx < 0 \<and> typeIdx < 0
                 then LoggedError ''primary_key, column_name, and/or data_type cannot be empty''
                 else case primaryKeyNames primaryKeyIdx nameKeyIdx (rows structure) [] of
                   Inl e \<Rightarrow> Raised e
                 | Inr names \<Rightarrow>
                     (let primaryColumnIndexes =
                            filter (\<lambda>idx. idx \<ge> 0) (map (indexOf (columns page)) names)
                      in if primaryColumnIndexes = [] then NoEdit
                         else case collectTypes nameKeyIdx typeIdx nullableIdx (rows structure) Map.empty of
                           Inl e \<Rightarrow> Raised e
                         | Inr types \<Rightarrow>
                             (let changeValue =
                                    foldl (\<lambda>acc (k, v). obj_put acc k (convertStringToValue types k v))
                                      [] change;
                                  keyValues =
                                    foldl (\<lambda>acc idx. obj_put acc (columns page ! nat idx) (js_index r idx))
                                      [] primaryColumnIndexes
                              in Submitted
                                   (constructUpdateQuery (selectedDatabaseTable state) keyValues changeValue)
                                   changeValue)))
         | _ \<Rightarrow> NoEdit)"

text \<open>
  On \<open>Submitted query changeValue\<close> the source calls \<^verbatim>\<open>execute\<close> with the
  query and \<^verbatim>\<open>updatePage\<close> with the page in which the cells of the highlighted
  row are overwritten by \<open>changeValue\<close>; on \<open>LoggedError\<close> it has written
  the line with \<^verbatim>\<open>console.error\<close> and returned; on \<open>NoEdit\<close> it has
  returned without a trace; on \<open>Raised\<close> the exception leaves the callback.
\<close>

section \<open>Example inputs\<close>

text \<open>Concrete states, worlds and runs at which the theorems below are evaluated.\<close>

definition page120 :: Page where
  "page120 = \<lparr>databaseId = 1, table = ''T1'', columns = [''c''], rows = [[VNumber 1]],
     start = 0, count = 50, total = 120, highlightedRows = []\<rparr>"

definition loadedState :: DatabasesPluginState where
  "loadedState = initialState\<lparr>currentPage := Some page120\<rparr>"

definition loadedWorld :: world where
  "loadedWorld = initialWorld\<lparr>store := loadedState\<rparr>"

text \<open>A database list whose only database has no tables.\<close>

definition emptyDatabase :: "DatabaseEntry list" where
  "emptyDatabase = [\<lparr>db_id = 1, name = ''db'', tables = []\<rparr>]"

text \<open>The user types \<open>A\<close> and submits it twice.\<close>

definition doubleExecute :: "event list" where
  "doubleExecute =
     [CallUpdateQuery ''A'' ''t0'', CallExecute ''A'' ''t1'' 1, CallExecute ''A'' ''t2'' 2]"

definition exampleDatabases :: "DatabaseEntry list" where
  "exampleDatabases = [\<lparr>db_id = 1, name = ''db'', tables = [''T1'', ''T2'']\<rparr>]"

definition stateT1 :: DatabasesPluginState where
  "stateT1 = initialState\<lparr>
     databases := exampleDatabases,
     outdatedDatabaseList := False,
     selectedDatabase := 1,
     selectedDatabaseTable := Table ''T1''\<rparr>"

definition worldT2 :: world where
  "worldT2 = initialWorld\<lparr>store := updateSelectedDatabaseTable ''T2'' stateT1\<rparr>"

text \<open>A state whose selected table no longer exists, with a page loaded.\<close>

definition stateGone :: DatabasesPluginState where
  "stateGone = stateT1\<lparr>
     selectedDatabaseTable := Table ''gone'',
     pageRowNumber := 50,
     currentPage := Some page120\<rparr>"

text \<open>
  The plugin connects, the database list arrives, the user selects table \<open>T2\<close>, and then
  the response of the page fetch that was sent for \<open>T1\<close> arrives.
\<close>

definition staleTrace :: "event list" where
  "staleTrace =
     [Connect,
      Resolve 0 (DatabaseListResponse exampleDatabases) 0,
      CallUpdateSelectedDatabaseTable ''T2'',
      Resolve 0 (TableDataResponse [''c''] [[VNumber 1]] 0 1 1) 0]"

text \<open>A database list whose ids are 2 and 3.\<close>

definition nonContiguous :: "DatabaseEntry list" where
  "nonContiguous =
     [\<lparr>db_id = 2, name = ''a'', tables = [''t'']\<rparr>, \<lparr>db_id = 3, name = ''b'', tables = [''u'']\<rparr>]"

text \<open>A world whose query buffer holds \<open>Q\<close> and whose favorites are \<open>favs\<close>.\<close>

definition favoritesWorld :: "string list \<Rightarrow> world" where
  "favoritesWorld favs =
     initialWorld\<lparr>store := initialState\<lparr>
       query := Some \<lparr>oid = 0, q_value = ''Q'', q_time = []\<rparr>,
       favorites := favs\<rparr>, next_oid := 1\<rparr>"

text \<open>A world whose query buffer holds \<open>A\<close> and whose history is empty.\<close>

definition queryWorld :: world where
  "queryWorld =
     initialWorld\<lparr>store := initialState\<lparr>
       query := Some \<lparr>oid = 0, q_value = ''A'', q_time = []\<rparr>\<rparr>, next_oid := 1\<rparr>"

text \<open>
  A state in which a row of table \<open>users\<close> is highlighted and the structure has the
  columns \<open>primary_key\<close> and \<open>data_type\<close>, but not \<open>column_name\<close>.
\<close>

definition editState :: DatabasesPluginState where
  "editState = initialState\<lparr>
     selectedDatabase := 1,
     selectedDatabaseTable := Table ''users'',
     currentStructure := Some \<lparr>databaseId = 1, table = ''users'',
       columns = [''primary_key'', ''data_type''],
       rows = [[VBoolean True, VString ''INTEGER'']],
       indexesColumns = [], indexesValues = []\<rparr>,
     currentPage := Some \<lparr>databaseId = 1, table = ''users'',
       columns = [''id''], rows = [[VNumber 7]],
       start = 0, count = 1, total = 1, highlightedRows = [0]\<rparr>\<rparr>"

section \<open>Basic facts\<close>

lemma store_set_store: "store (set_store s w) = s"
  by (simp add: set_store_def)

lemma store_update_store: "store (update_store f w) = f (store w)"
  by (simp add: update_store_def set_store_def freeze_def)

lemma store_assign_store: "store (assign_store f w) = f (store w)"
  by (simp add: assign_store_def set_store_def)

lemma queryFrozen_update_store: "queryFrozen (update_store f w)"
  by (simp add: update_store_def set_store_def freeze_def)

lemma queryFrozen_assign_store: "queryFrozen (assign_store f w) = queryFrozen w"
  by (simp add: assign_store_def set_store_def)

lemma js_index_negative: "i < 0 \<Longrightarrow> js_index xs i = None"
  by (simp add: js_index_def)

text \<open>What \<^const>\<open>updateDatabases\<close> returns when it returns a state.\<close>

lemma updateDatabases_Inr:
  assumes "updateDatabases dbs s = Inr s'"
  obtains entry sel tbl where
    "sel = (if selectedDatabase s \<noteq> 0 then selectedDatabase s
            else (case sort_key db_id dbs of [] \<Rightarrow> 0 | d # _ \<Rightarrow> db_id d))"
    and "js_index (sort_key db_id dbs) (sel - 1) = Some entry"
    and "tbl = (if truthy_table (selectedDatabaseTable s)
                   \<and> selectedDatabaseTable s \<in> Table ` set (tables entry)
                then selectedDatabaseTable s
                else (case tables entry of [] \<Rightarrow> Undefined | t # _ \<Rightarrow> Table t))"
    and "s' = s\<lparr>
           databases := sort_key db_id dbs,
           outdatedDatabaseList := False,
           selectedDatabase := sel,
           selectedDatabaseTable := tbl,
           pageRowNumber := 0,
           currentPage :=
             (if sel = selectedDatabase s \<and> tbl = selectedDatabaseTable s then currentPage s else None),
           currentStructure := None,
           currentSort :=
             (if sel = selectedDatabase s \<and> tbl = selectedDatabaseTable s then currentSort s else None)\<rparr>"
proof -
  define sel where "sel = (if selectedDatabase s \<noteq> 0 then selectedDatabase s
            else (case sort_key db_id dbs of [] \<Rightarrow> 0 | d # _ \<Rightarrow> db_id d))"
  from assms obtain entry where e: "js_index (sort_key db_id dbs) (sel - 1) = Some entry"
    unfolding updateDatabases_def Let_def sel_def
    by (cases "js_index (sort_key db_id dbs) (sel - 1)") (simp_all add: sel_def)
  define tbl where "tbl = (if truthy_table (selectedDatabaseTable s)
                   \<and> selectedDatabaseTable s \<in> Table ` set (tables entry)
                then selectedDatabaseTable s
                else (case tables entry of [] \<Rightarrow> Undefined | t # _ \<Rightarrow> Table t))"
  have "s' = s\<lparr>
           databases := sort_key db_id dbs,
           outdatedDatabaseList := False,
           selectedDatabase := sel,
           selectedDatabaseTable := tbl,
           pageRowNumber := 0,
           currentPage :=
             (if sel = selectedDatabase s \<and> tbl = selectedDatabaseTable s then currentPage s else None),
           currentStructure := None,
           currentSort :=
             (if sel = selectedDatabase s \<and> tbl = selectedDatabaseTable s then currentSort s else None)\<rparr>"
    using assms e unfolding updateDatabases_def Let_def sel_def[symmetric] tbl_def by simp
  with that sel_def e tbl_def show thesis by blast
qed

lemma updateDatabases_resets:
  assumes "updateDatabases dbs s = Inr s'"
  shows "pageRowNumber s' = 0" and "currentStructure s' = None"
    and "selectedDatabase s' \<noteq> selectedDatabase s \<or> selectedDatabaseTable s' \<noteq> selectedDatabaseTable s
         \<Longrightarrow> currentPage s' = None \<and> currentSort s' = None"
proof -
  from assms obtain entry sel tbl where s': "s' = s\<lparr>
           databases := sort_key db_id dbs,
           outdatedDatabaseList := False,
           selectedDatabase := sel,
           selectedDatabaseTable := tbl,
           pageRowNumber := 0,
           currentPage :=
             (if sel = selectedDatabase s \<and> tbl = selectedDatabaseTable s then currentPage s else None),
           currentStructure := None,
           currentSort :=
             (if sel = selectedDatabase s \<and> tbl = selectedDatabaseTable s then currentSort s else None)\<rparr>"
    by (rule updateDatabases_Inr)
  show "pageRowNumber s' = 0" by (simp add: s')
  show "currentStructure s' = None" by (simp add: s')
  show "currentPage s' = None \<and> currentSort s' = None"
    if "selectedDatabase s' \<noteq> selectedDatabase s \<or> selectedDatabaseTable s' \<noteq> selectedDatabaseTable s"
    using that by (auto simp: s')
qed

lemma updateSelectedDatabase_resets:
  assumes "updateSelectedDatabase d s = Inr s'"
  shows "pageRowNumber s' = 0 \<and> currentPage s' = None \<and> currentStructure s' = None \<and> currentSort s' = None"
proof (cases "js_index (databases s) (d - 1)")
  case None
  with assms show ?thesis by (simp add: updateSelectedDatabase_def)
next
  case (Some entry)
  with assms show ?thesis by (auto simp: updateSelectedDatabase_def)
qed

lemma updateSelectedDatabaseTable_resets:
  "pageRowNumber (updateSelectedDatabaseTable t s) = 0 \<and>
   currentPage (updateSelectedDatabaseTable t s) = None \<and>
   currentStructure (updateSelectedDatabaseTable t s) = None \<and>
   currentSort (updateSelectedDatabaseTable t s) = None"
  by (simp add: updateSelectedDatabaseTable_def)

text \<open>
  When \<^const>\<open>updateDatabases\<close> selects no table, the value it stores is
  \<^verbatim>\<open>undefined\<close>, not \<^verbatim>\<open>null\<close>.
\<close>

lemma updateDatabases_no_table:
  assumes "updateDatabases dbs s = Inr s'"
  shows "selectedDatabaseTable s' \<noteq> Null"
proof -
  from assms obtain entry sel tbl where
    "sel = (if selectedDatabase s \<noteq> 0 then selectedDatabase s
            else (case sort_key db_id dbs of [] \<Rightarrow> 0 | d # _ \<Rightarrow> db_id d))"
    and "js_index (sort_key db_id dbs) (sel - 1) = Some entry"
    and tbl: "tbl = (if truthy_table (selectedDatabaseTable s)
                   \<and> selectedDatabaseTable s \<in> Table ` set (tables entry)
                then selectedDatabaseTable s
                else (case tables entry of [] \<Rightarrow> Undefined | t # _ \<Rightarrow> Table t))"
    and s': "s' = s\<lparr>
           databases := sort_key db_id dbs,
           outdatedDatabaseList := False,
           selectedDatabase := sel,
           selectedDatabaseTable := tbl,
           pageRowNumber := 0,
           currentPage :=
             (if sel = selectedDatabase s \<and> tbl = selectedDatabaseTable s then currentPage s else None),
           currentStructure := None,
           currentSort :=
             (if sel = selectedDatabase s \<and> tbl = selectedDatabaseTable s then currentSort s else None)\<rparr>"
    by (rule updateDatabases_Inr)
  have "tbl \<noteq> Null" unfolding tbl by (auto split: list.splits)
  then show ?thesis by (simp add: s')
qed

text \<open>
  After \<^const>\<open>updateDatabases\<close> the selected table is in the table list of the entry
  at the selected position, or it is \<^verbatim>\<open>undefined\<close> and that list is empty.
\<close>

lemma updateDatabases_table_member:
  assumes "updateDatabases dbs s = Inr s'"
  shows "\<exists>entry. js_index (databases s') (selectedDatabase s' - 1) = Some entry \<and>
           (case selectedDatabaseTable s' of
              Table t \<Rightarrow> t \<in> set (tables entry)
            | Undefined \<Rightarrow> tables entry = []
            | Null \<Rightarrow> False)"
proof -
  from assms obtain entry sel tbl where
    "sel = (if selectedDatabase s \<noteq> 0 then selectedDatabase s
            else (case sort_key db_id dbs of [] \<Rightarrow> 0 | d # _ \<Rightarrow> db_id d))"
    and e: "js_index (sort_key db_id dbs) (sel - 1) = Some entry"
    and tbl: "tbl = (if truthy_table (selectedDatabaseTable s)
                   \<and> selectedDatabaseTable s \<in> Table ` set (tables entry)
                then selectedDatabaseTable s
                else (case tables entry of [] \<Rightarrow> Undefined | t # _ \<Rightarrow> Table t))"
    and s': "s' = s\<lparr>
           databases := sort_key db_id dbs,
           outdatedDatabaseList := False,
           selectedDatabase := sel,
           selectedDatabaseTable := tbl,
           pageRowNumber := 0,
           currentPage :=
             (if sel = selectedDatabase s \<and> tbl = selectedDatabaseTable s then currentPage s else None),
           currentStructure := None,
           currentSort :=
             (if sel = selectedDatabase s \<and> tbl = selectedDatabaseTable s then currentSort s else None)\<rparr>"
    by (rule updateDatabases_Inr)
  have "case tbl of Table t \<Rightarrow> t \<in> set (tables entry) | Undefined \<Rightarrow> tables entry = [] | Null \<Rightarrow> False"
    unfolding tbl by (auto split: list.splits table_sel.splits)
  then show ?thesis using e by (simp add: s')
qed

subsection \<open>No event but a call of execute changes the history\<close>

lemma updateDatabases_history:
  "updateDatabases dbs s = Inr s' \<Longrightarrow> queryHistory s' = queryHistory s"
  by (auto simp: updateDatabases_def Let_def split: option.splits)

lemma updateSelectedDatabase_history:
  "updateSelectedDatabase d s = Inr s' \<Longrightarrow> queryHistory s' = queryHistory s"
  by (auto simp: updateSelectedDatabase_def split: option.splits)

lemma try_store_history:
  assumes "\<And>s s'. f s = Inr s' \<Longrightarrow> queryHistory s' = queryHistory s"
  shows "queryHistory (store (try_store f w)) = queryHistory (store w)"
  using assms by (cases "f (store w)") (simp_all add: try_store_def store_set_store)

lemma updateFavorites_history:
  "queryHistory (store (snd (updateFavorites arg w))) = queryHistory (store w)"
  by (simp add: updateFavorites_def Let_def)

lemma stamp_value: "q_value (stamp ob now x) = q_value x"
  by (simp add: stamp_def)

lemma execute_history_values:
  "execute_history frozen now s = Inr s' \<Longrightarrow>
     map q_value (queryHistory s') =
       map q_value (queryHistory s) @
         (case query s of None \<Rightarrow> [] | Some b \<Rightarrow> if frozen then [] else [q_value b])"
  by (auto simp: execute_history_def stamp_value split: option.splits if_splits)

lemma execute_history_raises:
  "execute_history frozen now s = Inl e \<longleftrightarrow> (e = TypeError \<and> frozen \<and> query s \<noteq> None)"
  by (cases e) (auto simp: execute_history_def split: option.splits)

lemma execute_queryResult:
  "queryResult (store (execute q now tb w)) = queryResult (store w)"
  by (cases "execute_history (queryFrozen w) now (store w)")
     (auto simp: execute_def Let_def store_update_store execute_history_def
        split: option.splits if_splits)

lemma execute_texts:
  "map q_value (queryHistory (store (execute q now tb w))) =
     map q_value (queryHistory (store w)) @
       (case query (store w) of
          None \<Rightarrow> []
        | Some b \<Rightarrow> if queryFrozen w then [] else [q_value b])"
proof (cases "execute_history (queryFrozen w) now (store w)")
  case (Inl e)
  then have f: "queryFrozen w \<and> query (store w) \<noteq> None"
    by (simp add: execute_history_raises)
  from Inl have "store (execute q now tb w) = store w"
    by (simp add: execute_def Let_def)
  with f show ?thesis by auto
next
  case (Inr s')
  then show ?thesis
    using execute_history_values [OF Inr]
    by (simp add: execute_def Let_def store_update_store)
qed

lemma resolve_history:
  "queryHistory (store (resolve rq rs now w)) = queryHistory (store w)"
proof (cases rq)
  case (GetTableData a b c d e f)
  then show ?thesis by (cases rs) (simp_all add: store_update_store updatePage_def)
next
  case (GetTableStructure a b)
  then show ?thesis by (cases rs) (simp_all add: store_update_store updateStructure_def)
next
  case (GetTableInfo a b)
  then show ?thesis by (cases rs) (simp_all add: store_update_store updateTableInfo_def)
next
  case DatabaseList
  then show ?thesis by (cases rs) (simp_all add: try_store_history updateDatabases_history)
next
  case (ExecuteQuery a b c)
  show ?thesis
  proof (cases rs)
    case (ExecuteResponse r)
    with ExecuteQuery show ?thesis
      by (cases r) (simp_all add: store_update_store store_assign_store execute_then_clear_def
          displaySelect_def displayInsert_def displayUpdateDelete_def)
  qed (simp_all add: ExecuteQuery)
qed

lemma reject_history:
  "queryHistory (store (reject rq e w)) = queryHistory (store w)"
  by (cases rq) (simp_all add: store_update_store set_error_def)

lemma step_history:
  "map q_value (queryHistory (store (step e w))) =
     map q_value (queryHistory (store w)) @ submitted [e] w"
proof (cases e)
  case (CallExecute q now tb)
  then show ?thesis
    by (simp add: execute_texts)
next
  case (CallGoToRow r)
  then show ?thesis
    by (auto simp: goToRow_def store_update_store Let_def split: option.splits)
next
  case (Resolve n r now)
  then show ?thesis by (simp add: resolve_history)
next
  case (Reject n e)
  then show ?thesis by (simp add: reject_history)
qed (simp_all add: store_update_store store_assign_store onConnect_def updateFavorites_history
      try_store_history updateDatabases_history updateSelectedDatabase_history
      updateSelectedDatabaseTable_def updateViewMode_def updatePage_def updateStructure_def
      displaySelect_def displayInsert_def displayUpdateDelete_def updateTableInfo_def
      nextPage_def previousPage_def refresh_def sortByChanged_def updateQuery_def
      clear_error_def highlight_def highlight_query_def split: option.splits)

lemma submitted_Cons: "submitted (e # es) w = submitted [e] w @ submitted es (step e w)"
  by (cases e) simp_all

lemma submitted_settlement:
  "is_settlement e \<Longrightarrow> submitted (e # es) w = submitted es (step e w)"
  by (cases e) (simp_all add: is_settlement_def)

lemma run_history:
  "map q_value (queryHistory (store (run es w))) =
     map q_value (queryHistory (store w)) @ submitted es w"
proof (induction es arbitrary: w)
  case Nil
  then show ?case by simp
next
  case (Cons e es)
  have "map q_value (queryHistory (store (run (e # es) w))) =
        map q_value (queryHistory (store (step e w))) @ submitted es (step e w)"
    using Cons.IH[of "step e w"] by simp
  also have "\<dots> = (map q_value (queryHistory (store w)) @ submitted [e] w) @ submitted es (step e w)"
    by (simp only: step_history)
  also have "\<dots> = map q_value (queryHistory (store w)) @ submitted (e # es) w"
    by (simp add: submitted_Cons[of e es w])
  finally show ?case .
qed

text \<open>
  Submitting \<open>A\<close> and then \<open>B\<close>, each right after it was typed, gives the history
  texts \<open>[A, B]\<close>, however the remote calls are settled in between.
\<close>

lemma submit_A_then_B:
  assumes "queryHistory (store w) = []" and "is_settlement r1" and "is_settlement r2"
  shows "map q_value (queryHistory (store (run
        [CallUpdateQuery A t1, CallExecute A n1 b1, r1,
         CallUpdateQuery B t2, CallExecute B n2 b2, r2] w))) = [A, B]"
proof -
  let ?es = "[CallUpdateQuery A t1, CallExecute A n1 b1, r1,
         CallUpdateQuery B t2, CallExecute B n2 b2, r2]"
  have "submitted ?es w = [A, B]"
    using assms
    by (simp add: submitted_settlement store_assign_store queryFrozen_assign_store updateQuery_def)
  then show ?thesis
    using assms run_history[of ?es w] by simp
qed

subsection \<open>The reductions of the update-statement builder with a column missing\<close>

lemma primaryKeyNames_no_key:
  "pk < 0 \<Longrightarrow> primaryKeyNames pk nk rws acc = (if rws = [] then Inr acc else Inl TypeError)"
  by (cases rws) (simp_all add: js_index_negative)

lemma primaryKeyNames_no_name:
  "nk < 0 \<Longrightarrow> primaryKeyNames pk nk rws acc = Inr names \<Longrightarrow> names = acc"
  by (induction rws arbitrary: acc) (auto simp: js_index_negative split: option.splits if_splits)

lemma collectTypes_no_type:
  "ty < 0 \<Longrightarrow> rws \<noteq> [] \<Longrightarrow> collectTypes nk ty nl rws acc = Inl TypeError"
  by (cases rws) (simp_all add: js_index_negative split: option.splits)

lemma primaryKeyNames_rows:
  "primaryKeyNames pk nk rws [] = Inr names \<Longrightarrow> names \<noteq> [] \<Longrightarrow> rws \<noteq> []"
  by (cases rws) simp_all

text \<open>
  With one of the three columns missing \<^const>\<open>onRowEdited\<close> submits no statement,
  whatever else it does.
\<close>

lemma missing_column_no_statement:
  assumes st: "currentStructure s = Some st"
    and miss: "indexOf (columns st) ''primary_key'' < 0 \<or> indexOf (columns st) ''column_name'' < 0
           \<or> indexOf (columns st) ''data_type'' < 0"
  shows "onRowEdited conv cons change s \<noteq> Submitted q cv"
proof
  assume sub: "onRowEdited conv cons change s = Submitted q cv"
  let ?pk = "indexOf (columns st) ''primary_key''"
  let ?nk = "indexOf (columns st) ''column_name''"
  let ?ty = "indexOf (columns st) ''data_type''"
  let ?nl = "indexOf (columns st) ''nullable''"
  from sub st obtain page names where
    page: "currentPage s = Some page"
    and names: "primaryKeyNames ?pk ?nk (rows st) [] = Inr names"
    and idx: "filter (\<lambda>idx. idx \<ge> 0) (map (indexOf (columns page)) names) \<noteq> []"
    and types: "collectTypes ?nk ?ty ?nl (rows st) Map.empty \<noteq> Inl TypeError"
    by (auto simp: onRowEdited_def Let_def split: if_splits option.splits sum.splits js_error.splits)
  from idx have ne: "names \<noteq> []" by auto
  with names have rws: "rows st \<noteq> []" by (rule primaryKeyNames_rows)
  from miss show False
  proof (elim disjE)
    assume "?pk < 0"
    with names rws show False by (simp add: primaryKeyNames_no_key)
  next
    assume "?nk < 0"
    with names ne show False using primaryKeyNames_no_name by blast
  next
    assume "?ty < 0"
    with types rws show False by (simp add: collectTypes_no_type)
  qed
qed

text \<open>The error line is written only when all three columns are missing.\<close>

lemma logged_only_when_all_missing:
  assumes "currentStructure s = Some st"
    and "onRowEdited conv cons change s = LoggedError m"
  shows "indexOf (columns st) ''primary_key'' < 0 \<and> indexOf (columns st) ''column_name'' < 0
           \<and> indexOf (columns st) ''data_type'' < 0"
  using assms
  by (auto simp: onRowEdited_def Let_def split: if_splits option.splits sum.splits)

section \<open>The claims\<close>

subsection \<open>C9: switching the view mode\<close>

text \<open>
  Claim C9. For every state and every mode \<open>m\<close>, \<^verbatim>\<open>updateViewMode(m)\<close> produces
  a state whose view mode is \<open>m\<close> and whose error is null, and in which every other
  field (selection, pagination, page, structure, sort, query, query result, favorites,
  execution time, table info, history, database list) is what it was; this state is the
  one the store holds after the call.
\<close>

theorem updateViewMode_frame:
  "viewMode (updateViewMode m s) = m \<and>
   error (updateViewMode m s) = None \<and>
   selectedDatabase (updateViewMode m s) = selectedDatabase s \<and>
   selectedDatabaseTable (updateViewMode m s) = selectedDatabaseTable s \<and>
   pageRowNumber (updateViewMode m s) = pageRowNumber s \<and>
   databases (updateViewMode m s) = databases s \<and>
   outdatedDatabaseList (updateViewMode m s) = outdatedDatabaseList s \<and>
   currentPage (updateViewMode m s) = currentPage s \<and>
   currentStructure (updateViewMode m s) = currentStructure s \<and>
   currentSort (updateViewMode m s) = currentSort s \<and>
   query (updateViewMode m s) = query s \<and>
   queryResult (updateViewMode m s) = queryResult s \<and>
   favorites (updateViewMode m s) = favorites s \<and>
   executionTime (updateViewMode m s) = executionTime s \<and>
   tableInfo (updateViewMode m s) = tableInfo s \<and>
   queryHistory (updateViewMode m s) = queryHistory s \<and>
   store (step (CallUpdateViewMode m) w) = updateViewMode m (store w)"
  by (simp add: updateViewMode_def store_update_store)

theorem updateViewMode_frame_witness:
  "viewMode (updateViewMode SQL loadedState) = SQL \<and>
   error (updateViewMode SQL loadedState) = None \<and>
   currentPage (updateViewMode SQL loadedState) = Some page120 \<and>
   store (step (CallUpdateViewMode SQL) initialWorld) = updateViewMode SQL initialState"
  using updateViewMode_frame [of SQL loadedState initialWorld]
  by (simp add: loadedState_def initialWorld_def)

subsection \<open>C6: going to a row\<close>

text \<open>
  Claim C6. For every state with a loaded page of \<open>T\<close> total rows and every integer
  \<open>row\<close>, \<^verbatim>\<open>goToRow(row)\<close> sets \<open>pageRowNumber\<close> to \<open>row\<close> clamped
  into \<open>[0, max (T - 50) 0]\<close> and nulls \<open>currentPage\<close>; with \<open>T = 120\<close>,
  \<^verbatim>\<open>goToRow(1000)\<close> gives 70 and \<^verbatim>\<open>goToRow(-5)\<close> gives 0; with no
  page loaded the call changes nothing (neither the state nor the outstanding requests).
  The state that \<^verbatim>\<open>goToRow\<close> computes is the one the store holds after the
  call.
\<close>

theorem goToRow_clamps:
  "(currentPage s = Some p \<longrightarrow>
      (\<exists>s'. goToRow row s = Some s' \<and>
            pageRowNumber s' = max 0 (min row (max (total p - PAGE_SIZE) 0)) \<and>
            currentPage s' = None)) \<and>
   (currentPage s = Some p \<and> total p = 120 \<longrightarrow>
      map_option pageRowNumber (goToRow 1000 s) = Some 70 \<and>
      map_option pageRowNumber (goToRow (-5) s) = Some 0) \<and>
   (currentPage (store w) = None \<longrightarrow> step (CallGoToRow row) w = w) \<and>
   (\<forall>s'. goToRow row (store w) = Some s' \<longrightarrow> store (step (CallGoToRow row) w) = s') \<and>
   PAGE_SIZE = 50"
  by (auto simp: goToRow_def PAGE_SIZE_def Let_def store_update_store)

theorem goToRow_clamps_witness:
  "currentPage loadedState = Some page120 \<and> total page120 = 120 \<and>
   map_option pageRowNumber (goToRow 1000 loadedState) = Some 70 \<and>
   map_option pageRowNumber (goToRow (-5) loadedState) = Some 0 \<and>
   map_option currentPage (goToRow 1000 loadedState) = Some None \<and>
   currentPage (store initialWorld) = None \<and>
   step (CallGoToRow 1000) initialWorld = initialWorld \<and>
   pageRowNumber (store (step (CallGoToRow 1000) loadedWorld)) = 70 \<and>
   currentPage (store (step (CallGoToRow 1000) loadedWorld)) = None"
proof -
  have g: "goToRow 1000 (store loadedWorld) =
             Some (loadedState\<lparr>pageRowNumber := 70, currentPage := None\<rparr>)"
    by (simp add: goToRow_def loadedWorld_def loadedState_def page120_def PAGE_SIZE_def Let_def)
  from goToRow_clamps [of loadedState page120 1000 loadedWorld] g
  have "store (step (CallGoToRow 1000) loadedWorld)
          = loadedState\<lparr>pageRowNumber := 70, currentPage := None\<rparr>"
    by blast
  then show ?thesis
    using goToRow_clamps [of loadedState page120 1000 initialWorld]
    by (auto simp: loadedState_def page120_def initialWorld_def initialState_def)
qed

subsection \<open>C5: a change of selection resets the page, the structure and the sort\<close>

text \<open>
  Claim C5. Every transition \<^verbatim>\<open>updateSelectedDatabase\<close>,
  \<^verbatim>\<open>updateSelectedDatabaseTable\<close> or \<^verbatim>\<open>updateDatabases\<close> that returns
  a state \<open>s'\<close> in which the selected database or the selected table differs from the
  one before has \<open>pageRowNumber = 0\<close>, no current page and no current structure in
  \<open>s'\<close>, and no current sort when the database changed.
\<close>

theorem selection_change_resets:
  assumes "updateSelectedDatabase d s = Inr s' \<or> s' = updateSelectedDatabaseTable t s
             \<or> updateDatabases dbs s = Inr s'"
    and "selectedDatabase s' \<noteq> selectedDatabase s \<or> selectedDatabaseTable s' \<noteq> selectedDatabaseTable s"
  shows "pageRowNumber s' = 0 \<and> currentPage s' = None \<and> currentStructure s' = None \<and>
         (selectedDatabase s' \<noteq> selectedDatabase s \<longrightarrow> currentSort s' = None)"
  using assms(1)
proof (elim disjE)
  assume "updateSelectedDatabase d s = Inr s'"
  then show ?thesis using updateSelectedDatabase_resets by blast
next
  assume "s' = updateSelectedDatabaseTable t s"
  then show ?thesis by (simp add: updateSelectedDatabaseTable_resets)
next
  assume u: "updateDatabases dbs s = Inr s'"
  show ?thesis using updateDatabases_resets[OF u] assms(2) by blast
qed

theorem selection_change_resets_witness:
  "updateDatabases exampleDatabases stateGone = Inr (projr (updateDatabases exampleDatabases stateGone)) \<and>
   currentPage stateGone = Some page120 \<and>
   pageRowNumber stateGone = 50 \<and>
   selectedDatabaseTable (projr (updateDatabases exampleDatabases stateGone))
     \<noteq> selectedDatabaseTable stateGone \<and>
   pageRowNumber (projr (updateDatabases exampleDatabases stateGone)) = 0 \<and>
   currentPage (projr (updateDatabases exampleDatabases stateGone)) = None \<and>
   currentStructure (projr (updateDatabases exampleDatabases stateGone)) = None"
proof -
  have r: "updateDatabases exampleDatabases stateGone
             = Inr (projr (updateDatabases exampleDatabases stateGone))"
    by (simp add: updateDatabases_def exampleDatabases_def stateGone_def stateT1_def
        initialState_def js_index_def Let_def)
  have c: "selectedDatabaseTable (projr (updateDatabases exampleDatabases stateGone))
             \<noteq> selectedDatabaseTable stateGone"
    by (simp add: updateDatabases_def exampleDatabases_def stateGone_def stateT1_def
        initialState_def js_index_def Let_def)
  have "currentPage stateGone = Some page120 \<and> pageRowNumber stateGone = 50"
    by (simp add: stateGone_def)
  then show ?thesis
    using r c selection_change_resets [of 0 stateGone
      "projr (updateDatabases exampleDatabases stateGone)" "[]" exampleDatabases]
    by blast
qed

subsection \<open>C3: the selected table after a refresh of the database list\<close>

text \<open>
  Claim C3 says that after a successful \<^verbatim>\<open>updateDatabases\<close> call the resulting
  \<open>selectedDatabaseTable\<close> is a member of the table list of the database that the
  resulting \<open>selectedDatabase\<close> identifies, or null if that list is empty. The
  membership holds (\<open>updateDatabases_table_member\<close>, for the entry at that 1-based
  position of the sorted list). The empty case does not: the code stores
  \<^verbatim>\<open>tables[0]\<close> of the empty array, which is \<^verbatim>\<open>undefined\<close> and not
  \<^verbatim>\<open>null\<close>, although the field is declared \<^verbatim>\<open>string | null\<close> and
  \<^verbatim>\<open>updateSelectedDatabase\<close> writes \<^verbatim>\<open>tables[0] || null\<close> for the
  same database. Evaluated on a list whose only database has no tables, from the initial
  state: \<^verbatim>\<open>updateDatabases\<close> stores \<^verbatim>\<open>undefined\<close>, and
  \<^verbatim>\<open>updateSelectedDatabase\<close> on the same list stores \<^verbatim>\<open>null\<close>.
\<close>

theorem empty_table_list_stores_undefined:
  "map_sum id selectedDatabaseTable (updateDatabases emptyDatabase initialState) = Inr Undefined \<and>
   map_sum id selectedDatabase (updateDatabases emptyDatabase initialState) = Inr 1 \<and>
   map_sum id selectedDatabaseTable
     (updateSelectedDatabase 1 (initialState\<lparr>databases := emptyDatabase\<rparr>)) = Inr Null"
  by (simp add: emptyDatabase_def updateDatabases_def updateSelectedDatabase_def
      initialState_def js_index_def Let_def)

subsection \<open>C10: the lookup of the selected database in updateDatabases\<close>

text \<open>
  Claim C10, as stated: \<^verbatim>\<open>updateDatabases\<close> reads the selected database as
  \<^verbatim>\<open>databases[selectedDatabase - 1]\<close> of the id-sorted list, and for every call
  where the incoming list is empty, or the derived selected id exceeds the list length, or
  the ids are not contiguous from 1, the lookup yields no entry and the access to its
  \<^verbatim>\<open>tables\<close> field fails instead of producing a new state. The last case is
  false: with the ids 2 and 3 and no prior selection the derived id is 2, the lookup
  yields the second entry (the database with id 3), and a new state is produced.
\<close>

theorem non_contiguous_ids_counterexample:
  "map db_id nonContiguous = [2, 3] \<and>
   map_sum id selectedDatabase (updateDatabases nonContiguous initialState) = Inr 2 \<and>
   map_sum id selectedDatabaseTable (updateDatabases nonContiguous initialState) = Inr (Table ''u'')"
  by (simp add: nonContiguous_def updateDatabases_def initialState_def js_index_def Let_def)

text \<open>
  Claim C10, amended: \<^verbatim>\<open>updateDatabases\<close> reads the selected database as
  \<^verbatim>\<open>databases[selectedDatabase - 1]\<close> of the id-sorted list, where the selected
  id is the prior selection if it is not 0 and else the id of the first entry (0 for an
  empty list). The lookup yields no entry, and the access to its \<^verbatim>\<open>tables\<close>
  field fails instead of producing a new state, exactly when that id is less than 1 or
  exceeds the list length; this is so for every empty incoming list. When the id lies
  within the list, a new state is produced from the entry at that position, whatever the
  id of that entry is.
\<close>

theorem updateDatabases_lookup:
  "(let sel = (if selectedDatabase s \<noteq> 0 then selectedDatabase s
               else (case sort_key db_id dbs of [] \<Rightarrow> 0 | d # _ \<Rightarrow> db_id d))
    in (updateDatabases dbs s = Inl TypeError \<longleftrightarrow> sel < 1 \<or> int (length dbs) < sel) \<and>
       (1 \<le> sel \<and> sel \<le> int (length dbs) \<longrightarrow>
          (\<exists>s'. updateDatabases dbs s = Inr s' \<and> selectedDatabase s' = sel \<and>
                databases s' = sort_key db_id dbs \<and>
                (case selectedDatabaseTable s' of
                   Table t \<Rightarrow> t \<in> set (tables (sort_key db_id dbs ! nat (sel - 1)))
                 | _ \<Rightarrow> tables (sort_key db_id dbs ! nat (sel - 1)) = [])))) \<and>
   (dbs = [] \<longrightarrow> updateDatabases dbs s = Inl TypeError)"
proof -
  define sel where "sel = (if selectedDatabase s \<noteq> 0 then selectedDatabase s
               else (case sort_key db_id dbs of [] \<Rightarrow> 0 | d # _ \<Rightarrow> db_id d))"
  have fails: "updateDatabases dbs s = Inl TypeError \<longleftrightarrow> sel < 1 \<or> int (length dbs) < sel"
    unfolding sel_def by (auto simp: updateDatabases_def Let_def js_index_def)
  have ok: "\<exists>s'. updateDatabases dbs s = Inr s' \<and> selectedDatabase s' = sel \<and>
                databases s' = sort_key db_id dbs \<and>
                (case selectedDatabaseTable s' of
                   Table t \<Rightarrow> t \<in> set (tables (sort_key db_id dbs ! nat (sel - 1)))
                 | _ \<Rightarrow> tables (sort_key db_id dbs ! nat (sel - 1)) = [])"
    if "1 \<le> sel \<and> sel \<le> int (length dbs)"
  proof -
    from that have "js_index (sort_key db_id dbs) (sel - 1) = Some (sort_key db_id dbs ! nat (sel - 1))"
      by (simp add: js_index_def)
    then show ?thesis
      unfolding sel_def
      by (auto simp: updateDatabases_def Let_def split: list.splits table_sel.splits)
  qed
  have empty: "updateDatabases dbs s = Inl TypeError" if "dbs = []"
    using that by (simp add: updateDatabases_def Let_def js_index_def)
  from fails ok empty show ?thesis
    unfolding Let_def sel_def by blast
qed

theorem updateDatabases_lookup_witness:
  "updateDatabases [] stateT1 = Inl TypeError \<and>
   selectedDatabase stateT1 = 1 \<and> length nonContiguous = 2 \<and>
   updateDatabases nonContiguous stateT1 \<noteq> Inl TypeError \<and>
   (\<exists>s'. updateDatabases nonContiguous stateT1 = Inr s' \<and> selectedDatabase s' = 1 \<and>
         databases s' = nonContiguous \<and> selectedDatabaseTable s' = Table ''t'')"
proof -
  have sel: "selectedDatabase stateT1 = 1" and len: "length nonContiguous = 2"
    and sorted: "sort_key db_id nonContiguous = nonContiguous"
    by (simp_all add: stateT1_def nonContiguous_def)
  have "\<exists>s'. updateDatabases nonContiguous stateT1 = Inr s' \<and> selectedDatabase s' = 1 \<and>
         databases s' = sort_key db_id nonContiguous \<and>
         (case selectedDatabaseTable s' of
            Table t \<Rightarrow> t \<in> set (tables (sort_key db_id nonContiguous ! nat (1 - 1)))
          | _ \<Rightarrow> tables (sort_key db_id nonContiguous ! nat (1 - 1)) = [])"
    using updateDatabases_lookup [of stateT1 nonContiguous]
    by (simp add: Let_def sel len)
  then obtain s' where s': "updateDatabases nonContiguous stateT1 = Inr s'"
    "selectedDatabase s' = 1" "databases s' = sort_key db_id nonContiguous"
    "case selectedDatabaseTable s' of
            Table t \<Rightarrow> t \<in> set (tables (sort_key db_id nonContiguous ! nat (1 - 1)))
          | _ \<Rightarrow> tables (sort_key db_id nonContiguous ! nat (1 - 1)) = []"
    by blast
  from s'(4) have "selectedDatabaseTable s' = Table ''t''"
    unfolding sorted by (cases "selectedDatabaseTable s'") (simp_all add: nonContiguous_def)
  with s' sel len sorted updateDatabases_lookup [of stateT1 "[]"] show ?thesis
    by simp
qed

subsection \<open>C8: the outcome of execute\<close>

text \<open>
  Claim C8. For every \<^verbatim>\<open>execute\<close> call: when the remote call fails, the
  resulting state has the error set and its \<open>queryResult\<close> is what it was, also
  counted from before the call was submitted; when it succeeds, the error is cleared to
  null and, according to the kind of the response (select, insert, update_delete), exactly
  one of the three fields of the query result (table, inserted id, affected count) is
  populated and the other two are null.
\<close>

theorem execute_outcome:
  "error (store (reject (ExecuteQuery d q tb) e w)) = Some e \<and>
   queryResult (store (reject (ExecuteQuery d q tb) e w)) = queryResult (store w) \<and>
   queryResult (store (reject (ExecuteQuery d q tb) e (execute q now tb w))) = queryResult (store w) \<and>
   error (store (resolve (ExecuteQuery d q tb) (ExecuteResponse r) arrival w)) = None \<and>
   queryResult (store (resolve (ExecuteQuery d q tb) (ExecuteResponse r) arrival w)) =
     Some (case r of
        SelectResponse cols vals \<Rightarrow>
          \<lparr>qr_table = Some \<lparr>qt_columns = cols, qt_rows = vals, qt_highlightedRows = []\<rparr>,
           qr_id = None, qr_count = None\<rparr>
      | InsertResponse i \<Rightarrow> \<lparr>qr_table = None, qr_id = Some i, qr_count = None\<rparr>
      | UpdateDeleteResponse c \<Rightarrow> \<lparr>qr_table = None, qr_id = None, qr_count = Some c\<rparr>)"
  by (cases r)
     (simp_all add: store_update_store store_assign_store set_error_def execute_queryResult
        execute_then_clear_def displaySelect_def displayInsert_def displayUpdateDelete_def)

theorem execute_outcome_witness:
  "error (store (reject (ExecuteQuery 1 ''A'' 0) ''boom'' queryWorld)) = Some ''boom'' \<and>
   queryResult (store (reject (ExecuteQuery 1 ''A'' 0) ''boom'' (execute ''A'' ''t'' 0 queryWorld))) = None \<and>
   error (store (resolve (ExecuteQuery 1 ''A'' 0) (ExecuteResponse (InsertResponse 9)) 5 queryWorld)) = None \<and>
   queryResult (store (resolve (ExecuteQuery 1 ''A'' 0) (ExecuteResponse (InsertResponse 9)) 5 queryWorld)) =
     Some \<lparr>qr_table = None, qr_id = Some 9, qr_count = None\<rparr>"
  using execute_outcome [of 1 "''A''" 0 "''boom''" queryWorld "''t''" "InsertResponse 9" 5]
  by (simp add: queryWorld_def initialWorld_def initialState_def execute_queryResult)

subsection \<open>C1: a late page response\<close>

text \<open>
  Claim C1, as stated: when the selected table changes from \<open>T1\<close> to \<open>T2\<close> while
  a page fetch issued for \<open>T1\<close> is outstanding, the late response for \<open>T1\<close> is
  discarded and never becomes \<open>currentPage\<close>. In the run \<^const>\<open>staleTrace\<close> it
  does: at the end the selection is \<open>T2\<close> and the current page is the page of
  \<open>T1\<close>.
\<close>

theorem stale_page_counterexample:
  "selectedDatabaseTable (store (run staleTrace initialWorld)) = Table ''T2'' \<and>
   map_option table (currentPage (store (run staleTrace initialWorld))) = Some ''T1''"
  by (simp add: staleTrace_def exampleDatabases_def initialWorld_def initialState_def
      onConnect_def updateFavorites_def
      try_store_def updateDatabases_def js_index_def update_store_def assign_store_def freeze_def
      set_store_def subscriber_def
      updateSelectedDatabaseTable_def updatePage_def PAGE_SIZE_def the_table_def Let_def)

text \<open>
  Claim C1, amended: a page response is never discarded. Every page fetch that the
  subscription sends carries the database id and the table that are selected at that
  moment, and when its response arrives \<^verbatim>\<open>updatePage\<close> makes it the current page
  without comparing it with the selection: the current page then carries the database id
  and table that were selected when the fetch was sent, whatever is selected at arrival.
\<close>

theorem page_response_merged:
  assumes "r \<in> set (subscriber newState previousState)"
    and "r = GetTableData cnt d sk rv t st"
  shows "d = selectedDatabase newState \<and> Table t = selectedDatabaseTable newState \<and>
     currentPage (store (resolve r (TableDataResponse cols vals s c tot) now w)) =
       Some \<lparr>databaseId = selectedDatabase newState, table = t, columns = cols, rows = vals,
         start = s, count = c, total = tot, highlightedRows = []\<rparr>"
proof -
  from assms have sel: "truthy_table (selectedDatabaseTable newState)"
    and d: "d = selectedDatabase newState" and t: "t = the_table (selectedDatabaseTable newState)"
    by (auto simp: subscriber_def Let_def split: if_splits)
  from sel t have "Table t = selectedDatabaseTable newState"
    by (cases "selectedDatabaseTable newState") (simp_all add: the_table_def)
  then show ?thesis using d assms(2)
    by (simp add: store_update_store updatePage_def)
qed

theorem page_response_merged_witness:
  "GetTableData 50 1 None False ''T1'' 0 \<in> set (subscriber stateT1 initialState) \<and>
   selectedDatabaseTable (store worldT2) = Table ''T2'' \<and>
   currentPage (store (resolve (GetTableData 50 1 None False ''T1'' 0)
       (TableDataResponse [''c''] [[VNumber 1]] 0 1 1) 0 worldT2)) =
     Some \<lparr>databaseId = 1, table = ''T1'', columns = [''c''], rows = [[VNumber 1]],
       start = 0, count = 1, total = 1, highlightedRows = []\<rparr>"
proof -
  have m: "GetTableData 50 1 None False ''T1'' 0 \<in> set (subscriber stateT1 initialState)"
    by (simp add: subscriber_def stateT1_def initialState_def PAGE_SIZE_def the_table_def Let_def)
  have s: "selectedDatabaseTable (store worldT2) = Table ''T2''"
    and d: "selectedDatabase stateT1 = 1"
    by (simp_all add: worldT2_def initialWorld_def updateSelectedDatabaseTable_def stateT1_def)
  from page_response_merged [OF m refl, of "[''c'']" "[[VNumber 1]]" 0 1 1 0 worldT2] m s d
  show ?thesis by simp
qed

subsection \<open>C7: the query history\<close>

text \<open>
  Claim C7 says that every submission of \<^verbatim>\<open>execute\<close> while there is a query
  buffer appends one entry holding the buffer's text to \<open>queryHistory\<close>, whatever
  the remote call does later. The code appends at submission time, before any response,
  and no response handler touches the history (\<open>run_history\<close>); submitting \<open>A\<close>
  and then \<open>B\<close> gives \<open>[A, B]\<close> (\<open>submit_A_then_B\<close>). But before it
  appends, \<^verbatim>\<open>execute\<close> writes the time into the buffer object that the store
  holds, and once a state with that object has been through \<^verbatim>\<open>update\<close> the
  object is read-only. Evaluated on the run \<^const>\<open>doubleExecute\<close> from the initial
  world: the first submission appends \<open>A\<close> and, by its own \<^verbatim>\<open>update\<close>,
  leaves the buffer read-only; the second submission sends its request, raises a TypeError
  at the write and appends nothing, so the history holds \<open>A\<close> once.
\<close>

theorem second_execute_appends_nothing:
  "query (store (run (butlast doubleExecute) initialWorld))
     = Some \<lparr>oid = 0, q_value = ''A'', q_time = ''t1''\<rparr> \<and>
   map q_value (queryHistory (store (run (butlast doubleExecute) initialWorld))) = [''A''] \<and>
   execute_history (queryFrozen (run (butlast doubleExecute) initialWorld)) ''t2''
     (store (run (butlast doubleExecute) initialWorld)) = Inl TypeError \<and>
   map q_value (queryHistory (store (run doubleExecute initialWorld))) = [''A''] \<and>
   pending (run doubleExecute initialWorld) = [ExecuteQuery 0 ''A'' 1, ExecuteQuery 0 ''A'' 2]"
  by (simp add: doubleExecute_def initialWorld_def initialState_def execute_def
      execute_history_def updateQuery_def update_store_def assign_store_def freeze_def
      set_store_def subscriber_def stamp_def Let_def)

subsection \<open>C4: toggling a favorite\<close>

text \<open>
  Claim C4 says that for every state whose query buffer holds \<open>Q\<close>, applying
  \<^verbatim>\<open>updateFavorites\<close> twice restores the membership of \<open>Q\<close> in the favorites
  list, and that two toggles from the empty list give the empty list. The code computes
  the toggled list, writes it to the storage and returns it in a state that nobody
  stores. Evaluated with the buffer \<open>Q\<close>, in a store that has not been through
  \<^verbatim>\<open>update\<close> yet: from the empty list, each click leaves the
  state's list empty and writes \<open>[Q]\<close> to the storage, so after two clicks the stored
  favorites are \<open>[Q]\<close>, as is the list in the state that the second call returns;
  from the list \<open>[Q]\<close>, the first click removes \<open>Q\<close> from the state's own array
  and the second click does not put it back.
\<close>

theorem favorites_toggle_not_stored:
  "favorites (store (onFavoritesClicked (favoritesWorld []))) = [] \<and>
   storage (onFavoritesClicked (favoritesWorld [])) = Some [''Q''] \<and>
   favorites (store (onFavoritesClicked (onFavoritesClicked (favoritesWorld [])))) = [] \<and>
   storage (onFavoritesClicked (onFavoritesClicked (favoritesWorld []))) = Some [''Q''] \<and>
   favorites (fst (updateFavorites FavoritesOfState (onFavoritesClicked (favoritesWorld [])))) = [''Q''] \<and>
   favorites (store (onFavoritesClicked (favoritesWorld [''Q'']))) = [] \<and>
   favorites (store (onFavoritesClicked (onFavoritesClicked (favoritesWorld [''Q''])))) = [] \<and>
   storage (onFavoritesClicked (onFavoritesClicked (favoritesWorld [''Q'']))) = Some [''Q'']"
  by (simp add: favoritesWorld_def initialWorld_def initialState_def onFavoritesClicked_def
      updateFavorites_def updateFavorites_raises_def Let_def)

subsection \<open>C2: an edit when a structure column is missing\<close>

text \<open>
  Claim C2 says that if any one of the structure columns \<open>primary_key\<close>,
  \<open>column_name\<close>, \<open>data_type\<close> cannot be located, the build aborts with a logged
  error, emits no statement and changes no state. The guard of the code is a conjunction:
  it logs only when all three are missing (\<open>logged_only_when_all_missing\<close>).
  Evaluated on a structure that has \<open>primary_key\<close> and \<open>data_type\<close> but no
  \<open>column_name\<close>, with one primary-key row: nothing is logged, the name cell is read
  at index \<open>-1\<close>, and the read of its \<^verbatim>\<open>type\<close> raises a TypeError out of
  the callback. No statement is submitted (\<open>missing_column_no_statement\<close>).
\<close>

theorem missing_column_raises:
  "indexOf [''primary_key'', ''data_type''] ''column_name'' < 0 \<and>
   onRowEdited conv cons [(''id'', Some ''8'')] editState = Raised TypeError"
  by (simp add: onRowEdited_def editState_def initialState_def js_index_def Let_def)

theorem missing_column_raises_witness:
  "indexOf [''primary_key'', ''data_type''] ''column_name'' < 0 \<and>
   onRowEdited (\<lambda>types k v. VNull) (\<lambda>t keys change. []) [(''id'', Some ''8'')] editState
     = Raised TypeError"
  by (rule missing_column_raises)

end
